theory Spec2Isabelle
  imports Main "HOL-Library.Word"
begin

section \<open>Machine types\<close>

text \<open>
  The statistics proxy \<open>Memory::AllocatorStatistic\<close> (src/Memory/AllocatorStatistic.cpp)
  keeps its counters in \<open>std::atomic<size_t>\<close> and \<open>std::atomic<uintmax_t>\<close>. Both are
  taken as 64-bit unsigned words (an LP64 target): \<open>+\<close> wraps around modulo \<open>2 ^ 64\<close>, as
  \<open>fetch_add\<close> on an unsigned atomic does, and \<open><\<close> is the unsigned comparison.
  A \<open>void*\<close> is a 64-bit address with \<open>nullptr = 0\<close>; a \<open>DestructorPtr\<close> is the identity
  of a function; an exception in flight is identified by its \<open>std::exception_ptr\<close>.
\<close>

type_synonym size_t = "64 word"
type_synonym uintmax_t = "64 word"
type_synonym uint32_t = "32 word"
type_synonym ptr = "64 word"
type_synonym DestructorPtr = nat

datatype exception_ptr = Exception string

definition nullptr :: ptr where
  "nullptr = 0"

text \<open>\<open>std::numeric_limits<size_t>::max()\<close>\<close>

definition size_t_max :: size_t where
  "size_t_max = 18446744073709551615"

text \<open>
  How a C++ call ends: it returns a value, it throws, or it has undefined behaviour
  (here: a call through a null backing pointer, or whatever a backend declares undefined).
  \<open>catch (...)\<close> catches \<open>Throws\<close> only. The state that comes with \<open>Undefined\<close> is the
  state at the point where the behaviour became undefined; it says nothing about the
  program after that point.
\<close>

datatype 'a outcome = Returns 'a | Throws exception_ptr | Undefined

section \<open>Atomic counters, run by one thread\<close>

text \<open>
  \<open>cell.fetch_add(n, relaxed)\<close>: the new content of the cell (the value it returns is
  discarded at every call site).
\<close>

definition fetch_add :: "64 word \<Rightarrow> 64 word \<Rightarrow> 64 word" where
  "fetch_add cell n = cell + n"

text \<open>
  The update loops of the extrema,
  \<^verbatim>\<open>
  expected = cell.load();
  while (expected < desired)
      if (cell.compare_exchange_weak(expected, desired)) break;
  \<close>
  With no other thread writing, \<open>compare_exchange_weak\<close> stores \<open>desired\<close> when the cell
  holds \<open>expected\<close>, and otherwise reloads \<open>expected\<close> from the cell. (A spurious failure
  of the weak exchange repeats the iteration with the same values, and is left out.) The
  functions return the content of the cell when the loop is left.
\<close>

function cas_max_loop :: "size_t \<Rightarrow> size_t \<Rightarrow> size_t \<Rightarrow> size_t" where
  "cas_max_loop cell expected desired =
     (if expected < desired
      then (if cell = expected then desired else cas_max_loop cell cell desired)
      else cell)"
  by pat_completeness auto
termination
  by (relation "measure (\<lambda>(cell, expected, desired). if cell = expected then 0 else 1)") auto

function cas_min_loop :: "size_t \<Rightarrow> size_t \<Rightarrow> size_t \<Rightarrow> size_t" where
  "cas_min_loop cell expected desired =
     (if expected > desired
      then (if cell = expected then desired else cas_min_loop cell cell desired)
      else cell)"
  by pat_completeness auto
termination
  by (relation "measure (\<lambda>(cell, expected, desired). if cell = expected then 0 else 1)") auto

declare cas_max_loop.simps [simp del]
declare cas_min_loop.simps [simp del]

text \<open>\<open>expected = cell.load(); while ...\<close>\<close>

definition store_max :: "size_t \<Rightarrow> size_t \<Rightarrow> size_t" where
  "store_max cell desired = cas_max_loop cell cell desired"

definition store_min :: "size_t \<Rightarrow> size_t \<Rightarrow> size_t" where
  "store_min cell desired = cas_min_loop cell cell desired"

section \<open>The allocator interfaces\<close>

text \<open>
  \<open>Memory::BasicAllocator\<close> and \<open>Memory::ObjectAllocator\<close> are abstract classes; a backend is
  a table of its virtual functions over its own state \<open>'b\<close>. The \<open>const\<close> queries read the
  state, the others return the new one. Every one of them may throw.
\<close>

record 'b BasicAllocator =
  b_alloc :: "size_t \<Rightarrow> size_t \<Rightarrow> 'b \<Rightarrow> ptr outcome \<times> 'b"
  b_free :: "ptr \<Rightarrow> 'b \<Rightarrow> unit outcome \<times> 'b"
  b_realloc :: "ptr \<Rightarrow> size_t \<Rightarrow> size_t \<Rightarrow> 'b \<Rightarrow> ptr outcome \<times> 'b"
  b_getAllocSize :: "ptr \<Rightarrow> 'b \<Rightarrow> size_t outcome"
  b_reset :: "'b \<Rightarrow> unit outcome \<times> 'b"
  b_getFreeBytes :: "'b \<Rightarrow> size_t outcome"
  b_getUsedBytes :: "'b \<Rightarrow> size_t outcome"
  b_getTotalBytes :: "'b \<Rightarrow> size_t outcome"

record 'b ObjectAllocator = "'b BasicAllocator" +
  o_alloc :: "size_t \<Rightarrow> DestructorPtr \<Rightarrow> size_t \<Rightarrow> 'b \<Rightarrow> ptr outcome \<times> 'b"
  o_realloc :: "ptr \<Rightarrow> size_t \<Rightarrow> DestructorPtr \<Rightarrow> size_t \<Rightarrow> 'b \<Rightarrow> ptr outcome \<times> 'b"
  o_offer :: "ptr \<Rightarrow> uint32_t \<Rightarrow> 'b \<Rightarrow> ptr outcome \<times> 'b"
  o_reclaim :: "ptr \<Rightarrow> 'b \<Rightarrow> ptr outcome \<times> 'b"
  o_purge :: "uint32_t \<Rightarrow> 'b \<Rightarrow> unit outcome \<times> 'b"
  o_clear :: "'b \<Rightarrow> unit outcome \<times> 'b"
  o_getPendingBytes :: "'b \<Rightarrow> size_t outcome"

section \<open>The statistics proxy\<close>

text \<open>
  The fields of \<open>AllocatorStatistic\<close>, in the order of the class. The two backing pointers
  are \<open>None\<close> when null; when both are set they point to the same object, whose state is the
  field \<open>backing\<close> (the one object of the store that the proxy can reach).
\<close>

record 'b AllocatorStatistic =
  m_basic_backing :: "'b BasicAllocator option"
  m_object_backing :: "'b ObjectAllocator option"
  m_smallest :: size_t
  m_largest :: size_t
  m_highest :: size_t
  m_allocC :: uintmax_t
  m_alloc_failC :: uintmax_t
  m_alloc_largest_fail :: size_t
  m_allocB :: uintmax_t
  m_reallocC :: uintmax_t
  m_realloc_failC :: uintmax_t
  m_realloc_growthB :: uintmax_t
  m_realloc_shrinkB :: uintmax_t
  m_realloc_moveC :: uintmax_t
  m_realloc_moveB :: uintmax_t
  m_offerC :: uintmax_t
  m_offerB :: uintmax_t
  m_reclaimC :: uintmax_t
  m_reclaim_failC :: uintmax_t
  m_reclaimB :: uintmax_t
  backing :: 'b

subsection \<open>Constructors\<close>

text \<open>\<open>AllocatorStatistic()\<close>; \<open>b\<close> is the state of the store the proxy lives in.\<close>

definition AllocatorStatistic_default :: "'b \<Rightarrow> 'b AllocatorStatistic" where
  "AllocatorStatistic_default b =
     \<lparr> m_basic_backing = None,
       m_object_backing = None,
       m_smallest = size_t_max,
       m_largest = 0,
       m_highest = 0,
       m_allocC = 0,
       m_alloc_failC = 0,
       m_alloc_largest_fail = 0,
       m_allocB = 0,
       m_reallocC = 0,
       m_realloc_failC = 0,
       m_realloc_growthB = 0,
       m_realloc_shrinkB = 0,
       m_realloc_moveC = 0,
       m_realloc_moveB = 0,
       m_offerC = 0,
       m_offerB = 0,
       m_reclaimC = 0,
       m_reclaim_failC = 0,
       m_reclaimB = 0,
       backing = b \<rparr>"


text \<open>
  \<open>AllocatorStatistic(ObjectAllocator* backing)\<close>: the basic pointer is the same object
  seen as its base class.
\<close>

definition AllocatorStatistic_object ::
  "'b ObjectAllocator \<Rightarrow> 'b \<Rightarrow> 'b AllocatorStatistic" where
  "AllocatorStatistic_object bk b =
     (AllocatorStatistic_default b)
       \<lparr> m_basic_backing := Some (BasicAllocator.truncate bk),
         m_object_backing := Some bk \<rparr>"

subsection \<open>Read accessors\<close>

definition getHighestUsage :: "'b AllocatorStatistic \<Rightarrow> size_t" where
  "getHighestUsage this = m_highest this"

definition getSmallestAlloc :: "'b AllocatorStatistic \<Rightarrow> size_t" where
  "getSmallestAlloc this =
     (let ret = m_smallest this in
      if ret \<noteq> size_t_max then ret else 0)"

definition getLargestAlloc :: "'b AllocatorStatistic \<Rightarrow> size_t" where
  "getLargestAlloc this = m_largest this"

definition getTotalAllocs :: "'b AllocatorStatistic \<Rightarrow> uintmax_t" where
  "getTotalAllocs this = m_allocC this"

definition getTotalAllocFails :: "'b AllocatorStatistic \<Rightarrow> uintmax_t" where
  "getTotalAllocFails this = m_alloc_failC this"

definition getLargestAllocFailed :: "'b AllocatorStatistic \<Rightarrow> size_t" where
  "getLargestAllocFailed this = m_alloc_largest_fail this"

definition getTotalAllocBytes :: "'b AllocatorStatistic \<Rightarrow> uintmax_t" where
  "getTotalAllocBytes this = m_allocB this"

definition getTotalReallocs :: "'b AllocatorStatistic \<Rightarrow> uintmax_t" where
  "getTotalReallocs this = m_reallocC this"

definition getTotalReallocFails :: "'b AllocatorStatistic \<Rightarrow> uintmax_t" where
  "getTotalReallocFails this = m_realloc_failC this"

definition getTotalReallocGrowth :: "'b AllocatorStatistic \<Rightarrow> uintmax_t" where
  "getTotalReallocGrowth this = m_realloc_growthB this"

definition getTotalReallocShrink :: "'b AllocatorStatistic \<Rightarrow> uintmax_t" where
  "getTotalReallocShrink this = m_realloc_shrinkB this"

definition getTotalReallocMoves :: "'b AllocatorStatistic \<Rightarrow> uintmax_t" where
  "getTotalReallocMoves this = m_realloc_moveC this"

definition getTotalReallocMoved :: "'b AllocatorStatistic \<Rightarrow> uintmax_t" where
  "getTotalReallocMoved this = m_realloc_moveB this"

definition getTotalOffers :: "'b AllocatorStatistic \<Rightarrow> uintmax_t" where
  "getTotalOffers this = m_offerC this"

definition getTotalOfferBytes :: "'b AllocatorStatistic \<Rightarrow> uintmax_t" where
  "getTotalOfferBytes this = m_offerB this"

definition getTotalReclaims :: "'b AllocatorStatistic \<Rightarrow> uintmax_t" where
  "getTotalReclaims this = m_reclaimC this"

definition getTotalReclaimFails :: "'b AllocatorStatistic \<Rightarrow> uintmax_t" where
  "getTotalReclaimFails this = m_reclaim_failC this"

definition getTotalReclaimBytes :: "'b AllocatorStatistic \<Rightarrow> uintmax_t" where
  "getTotalReclaimBytes this = m_reclaimB this"

definition resetCounters :: "'b AllocatorStatistic \<Rightarrow> 'b AllocatorStatistic" where
  "resetCounters this =
     this\<lparr> m_smallest := size_t_max,
           m_largest := 0,
           m_highest := 0,
           m_allocC := 0,
           m_alloc_failC := 0,
           m_alloc_largest_fail := 0,
           m_allocB := 0,
           m_reallocC := 0,
           m_realloc_failC := 0,
           m_realloc_growthB := 0,
           m_realloc_shrinkB := 0,
           m_realloc_moveC := 0,
           m_realloc_moveB := 0,
           m_offerC := 0,
           m_offerB := 0,
           m_reclaimC := 0,
           m_reclaim_failC := 0,
           m_reclaimB := 0 \<rparr>"

subsection \<open>Forwarded queries\<close>

definition getAllocSize :: "ptr \<Rightarrow> 'b AllocatorStatistic \<Rightarrow> size_t outcome" where
  "getAllocSize p this =
     (case m_basic_backing this of
        None \<Rightarrow> Undefined
      | Some bk \<Rightarrow> b_getAllocSize bk p (backing this))"

definition getFreeBytes :: "'b AllocatorStatistic \<Rightarrow> size_t outcome" where
  "getFreeBytes this =
     (case m_basic_backing this of
        None \<Rightarrow> Undefined
      | Some bk \<Rightarrow> b_getFreeBytes bk (backing this))"

definition getUsedBytes :: "'b AllocatorStatistic \<Rightarrow> size_t outcome" where
  "getUsedBytes this =
     (case m_basic_backing this of
        None \<Rightarrow> Undefined
      | Some bk \<Rightarrow> b_getUsedBytes bk (backing this))"

definition getPendingBytes :: "'b AllocatorStatistic \<Rightarrow> size_t outcome" where
  "getPendingBytes this =
     (case m_object_backing this of
        None \<Rightarrow> Undefined
      | Some bk \<Rightarrow> o_getPendingBytes bk (backing this))"

definition getTotalBytes :: "'b AllocatorStatistic \<Rightarrow> size_t outcome" where
  "getTotalBytes this =
     (case m_basic_backing this of
        None \<Rightarrow> Undefined
      | Some bk \<Rightarrow> b_getTotalBytes bk (backing this))"

subsection \<open>alloc\<close>

text \<open>
  \<open>alloc(bytes, align)\<close>. The call counter is bumped first. The \<open>try\<close> block is the inner
  \<open>case\<close>: it ends with the value to return, or with the exception that left it and the
  state at that point; the \<open>catch (...)\<close> block is the outer \<open>case\<close>.
\<close>

definition alloc ::
  "size_t \<Rightarrow> size_t \<Rightarrow> 'b AllocatorStatistic \<Rightarrow> ptr outcome \<times> 'b AllocatorStatistic" where
  "alloc bytes align this0 =
     (let this = this0\<lparr> m_allocC := fetch_add (m_allocC this0) 1 \<rparr> in
      case (case m_basic_backing this of
              None \<Rightarrow> (Undefined, this)
            | Some bk \<Rightarrow>
                (case b_alloc bk bytes align (backing this) of
                   (Undefined, b') \<Rightarrow> (Undefined, this\<lparr> backing := b' \<rparr>)
                 | (Throws e, b') \<Rightarrow> (Throws e, this\<lparr> backing := b' \<rparr>)
                 | (Returns ret, b') \<Rightarrow>
                     (let this = this\<lparr> backing := b' \<rparr> in
                      case getUsedBytes this of
                        Undefined \<Rightarrow> (Undefined, this)
                      | Throws e \<Rightarrow> (Throws e, this)
                      | Returns current_use \<Rightarrow>
                          if ret \<noteq> nullptr
                          then (Returns ret,
                                this\<lparr> m_allocB := fetch_add (m_allocB this) bytes,
                                      m_largest := store_max (m_largest this) bytes,
                                      m_smallest := store_min (m_smallest this) bytes,
                                      m_highest := store_max (m_highest this) current_use \<rparr>)
                          else (Returns ret,
                                this\<lparr> m_alloc_failC := fetch_add (m_alloc_failC this) 1,
                                      m_alloc_largest_fail :=
                                        store_max (m_alloc_largest_fail this) bytes \<rparr>))))
      of
        (Throws eptr, this) \<Rightarrow>
          (Throws eptr,
           this\<lparr> m_alloc_failC := fetch_add (m_alloc_failC this) 1,
                 m_alloc_largest_fail := store_max (m_alloc_largest_fail this) bytes \<rparr>)
      | (r, this) \<Rightarrow> (r, this))"

text \<open>
  \<open>alloc(bytes, destructor, align)\<close>: the same bookkeeping, delegating to the object
  backing; \<open>getUsedBytes\<close> still goes through the basic pointer.
\<close>

definition alloc_destructor ::
  "size_t \<Rightarrow> DestructorPtr \<Rightarrow> size_t \<Rightarrow> 'b AllocatorStatistic
     \<Rightarrow> ptr outcome \<times> 'b AllocatorStatistic" where
  "alloc_destructor bytes destructor align this0 =
     (let this = this0\<lparr> m_allocC := fetch_add (m_allocC this0) 1 \<rparr> in
      case (case m_object_backing this of
              None \<Rightarrow> (Undefined, this)
            | Some bk \<Rightarrow>
                (case o_alloc bk bytes destructor align (backing this) of
                   (Undefined, b') \<Rightarrow> (Undefined, this\<lparr> backing := b' \<rparr>)
                 | (Throws e, b') \<Rightarrow> (Throws e, this\<lparr> backing := b' \<rparr>)
                 | (Returns ret, b') \<Rightarrow>
                     (let this = this\<lparr> backing := b' \<rparr> in
                      case getUsedBytes this of
                        Undefined \<Rightarrow> (Undefined, this)
                      | Throws e \<Rightarrow> (Throws e, this)
                      | Returns current_use \<Rightarrow>
                          if ret \<noteq> nullptr
                          then (Returns ret,
                                this\<lparr> m_allocB := fetch_add (m_allocB this) bytes,
                                      m_largest := store_max (m_largest this) bytes,
                                      m_smallest := store_min (m_smallest this) bytes,
                                      m_highest := store_max (m_highest this) current_use \<rparr>)
                          else (Returns ret,
                                this\<lparr> m_alloc_failC := fetch_add (m_alloc_failC this) 1,
                                      m_alloc_largest_fail :=
                                        store_max (m_alloc_largest_fail this) bytes \<rparr>))))
      of
        (Throws eptr, this) \<Rightarrow>
          (Throws eptr,
           this\<lparr> m_alloc_failC := fetch_add (m_alloc_failC this) 1,
                 m_alloc_largest_fail := store_max (m_alloc_largest_fail this) bytes \<rparr>)
      | (r, this) \<Rightarrow> (r, this))"

subsection \<open>free\<close>

definition free :: "ptr \<Rightarrow> 'b AllocatorStatistic \<Rightarrow> unit outcome \<times> 'b AllocatorStatistic" where
  "free p this =
     (case m_basic_backing this of
        None \<Rightarrow> (Undefined, this)
      | Some bk \<Rightarrow>
          (case b_free bk p (backing this) of
             (r, b') \<Rightarrow> (r, this\<lparr> backing := b' \<rparr>)))"

subsection \<open>realloc\<close>

text \<open>
  \<open>realloc(ptr, bytes, align)\<close>. Inside the \<open>try\<close> block the size of the block is read
  before the backend is called, and the used bytes after it.
\<close>

definition realloc ::
  "ptr \<Rightarrow> size_t \<Rightarrow> size_t \<Rightarrow> 'b AllocatorStatistic
     \<Rightarrow> ptr outcome \<times> 'b AllocatorStatistic" where
  "realloc p bytes align this0 =
     (let this = this0\<lparr> m_reallocC := fetch_add (m_reallocC this0) 1 \<rparr> in
      case (case getAllocSize p this of
              Undefined \<Rightarrow> (Undefined, this)
            | Throws e \<Rightarrow> (Throws e, this)
            | Returns last_size \<Rightarrow>
                (case m_basic_backing this of
                   None \<Rightarrow> (Undefined, this)
                 | Some bk \<Rightarrow>
                     (case b_realloc bk p bytes align (backing this) of
                        (Undefined, b') \<Rightarrow> (Undefined, this\<lparr> backing := b' \<rparr>)
                      | (Throws e, b') \<Rightarrow> (Throws e, this\<lparr> backing := b' \<rparr>)
                      | (Returns ret, b') \<Rightarrow>
                          (let this = this\<lparr> backing := b' \<rparr> in
                           case getUsedBytes this of
                             Undefined \<Rightarrow> (Undefined, this)
                           | Throws e \<Rightarrow> (Throws e, this)
                           | Returns current_use \<Rightarrow>
                               if ret \<noteq> nullptr
                               then
                                 (let this =
                                        this\<lparr> m_allocB := fetch_add (m_allocB this) bytes,
                                              m_largest := store_max (m_largest this) bytes,
                                              m_smallest := store_min (m_smallest this) bytes,
                                              m_highest :=
                                                store_max (m_highest this) current_use \<rparr>;
                                      this =
                                        (if ret \<noteq> p
                                         then this\<lparr> m_realloc_moveC :=
                                                      fetch_add (m_realloc_moveC this) 1,
                                                    m_realloc_moveB :=
                                                      fetch_add (m_realloc_moveB this) bytes \<rparr>
                                         else this);
                                      this =
                                        (if last_size > bytes
                                         then this\<lparr> m_realloc_shrinkB :=
                                                      fetch_add (m_realloc_shrinkB this)
                                                        (last_size - bytes) \<rparr>
                                         else if last_size < bytes
                                         then this\<lparr> m_realloc_growthB :=
                                                      fetch_add (m_realloc_growthB this)
                                                        (bytes - last_size) \<rparr>
                                         else this)
                                  in (Returns ret, this))
                               else (Returns ret,
                                     this\<lparr> m_realloc_failC :=
                                             fetch_add (m_realloc_failC this) 1,
                                           m_alloc_largest_fail :=
                                             store_max (m_alloc_largest_fail this) bytes \<rparr>)))))
      of
        (Throws eptr, this) \<Rightarrow>
          (Throws eptr,
           this\<lparr> m_realloc_failC := fetch_add (m_realloc_failC this) 1,
                 m_alloc_largest_fail := store_max (m_alloc_largest_fail this) bytes \<rparr>)
      | (r, this) \<Rightarrow> (r, this))"

text \<open>\<open>realloc(ptr, bytes, destructor, align)\<close>\<close>

definition realloc_destructor ::
  "ptr \<Rightarrow> size_t \<Rightarrow> DestructorPtr \<Rightarrow> size_t \<Rightarrow> 'b AllocatorStatistic
     \<Rightarrow> ptr outcome \<times> 'b AllocatorStatistic" where
  "realloc_destructor p bytes destructor align this0 =
     (let this = this0\<lparr> m_reallocC := fetch_add (m_reallocC this0) 1 \<rparr> in
      case (case getAllocSize p this of
              Undefined \<Rightarrow> (Undefined, this)
            | Throws e \<Rightarrow> (Throws e, this)
            | Returns last_size \<Rightarrow>
                (case m_object_backing this of
                   None \<Rightarrow> (Undefined, this)
                 | Some bk \<Rightarrow>
                     (case o_realloc bk p bytes destructor align (backing this) of
                        (Undefined, b') \<Rightarrow> (Undefined, this\<lparr> backing := b' \<rparr>)
                      | (Throws e, b') \<Rightarrow> (Throws e, this\<lparr> backing := b' \<rparr>)
                      | (Returns ret, b') \<Rightarrow>
                          (let this = this\<lparr> backing := b' \<rparr> in
                           case getUsedBytes this of
                             Undefined \<Rightarrow> (Undefined, this)
                           | Throws e \<Rightarrow> (Throws e, this)
                           | Returns current_use \<Rightarrow>
                               if ret \<noteq> nullptr
                               then
                                 (let this =
                                        this\<lparr> m_allocB := fetch_add (m_allocB this) bytes,
                                              m_largest := store_max (m_largest this) bytes,
                                              m_smallest := store_min (m_smallest this) bytes,
                                              m_highest :=
                                                store_max (m_highest this) current_use \<rparr>;
                                      this =
                                        (if ret \<noteq> p
                                         then this\<lparr> m_realloc_moveC :=
                                                      fetch_add (m_realloc_moveC this) 1,
                                                    m_realloc_moveB :=
                                                      fetch_add (m_realloc_moveB this) bytes \<rparr>
                                         else this);
                                      this =
                                        (if last_size > bytes
                                         then this\<lparr> m_realloc_shrinkB :=
                                                      fetch_add (m_realloc_shrinkB this)
                                                        (last_size - bytes) \<rparr>
                                         else if last_size < bytes
                                         then this\<lparr> m_realloc_growthB :=
                                                      fetch_add (m_realloc_growthB this)
                                                        (bytes - last_size) \<rparr>
                                         else this)
                                  in (Returns ret, this))
                               else (Returns ret,
                                     this\<lparr> m_realloc_failC :=
                                             fetch_add (m_realloc_failC this) 1,
                                           m_alloc_largest_fail :=
                                             store_max (m_alloc_largest_fail this) bytes \<rparr>)))))
      of
        (Throws eptr, this) \<Rightarrow>
          (Throws eptr,
           this\<lparr> m_realloc_failC := fetch_add (m_realloc_failC this) 1,
                 m_alloc_largest_fail := store_max (m_alloc_largest_fail this) bytes \<rparr>)
      | (r, this) \<Rightarrow> (r, this))"

subsection \<open>offer and reclaim\<close>

text \<open>
  \<open>offer(ptr, priority)\<close>: no \<open>try\<close> block here, so an exception of the size query or of
  the backend leaves the function at once.
\<close>

definition offer ::
  "ptr \<Rightarrow> uint32_t \<Rightarrow> 'b AllocatorStatistic \<Rightarrow> ptr outcome \<times> 'b AllocatorStatistic" where
  "offer p priority this0 =
     (let this = this0\<lparr> m_offerC := fetch_add (m_offerC this0) 1 \<rparr> in
      case getAllocSize p this of
        Undefined \<Rightarrow> (Undefined, this)
      | Throws e \<Rightarrow> (Throws e, this)
      | Returns n \<Rightarrow>
          (let this = this\<lparr> m_offerB := fetch_add (m_offerB this) n \<rparr> in
           case m_object_backing this of
             None \<Rightarrow> (Undefined, this)
           | Some bk \<Rightarrow>
               (case o_offer bk p priority (backing this) of
                  (ret, b') \<Rightarrow> (ret, this\<lparr> backing := b' \<rparr>))))"

text \<open>
  \<open>reclaim(ptr)\<close>: on success the size added to \<open>m_reclaimB\<close> is
  \<open>this->getAllocSize(ptr)\<close>, asked for the pointer that was passed in, after the backend
  has returned.
\<close>

definition reclaim ::
  "ptr \<Rightarrow> 'b AllocatorStatistic \<Rightarrow> ptr outcome \<times> 'b AllocatorStatistic" where
  "reclaim p this0 =
     (let this = this0\<lparr> m_reclaimC := fetch_add (m_reclaimC this0) 1 \<rparr> in
      case m_object_backing this of
        None \<Rightarrow> (Undefined, this)
      | Some bk \<Rightarrow>
          (case o_reclaim bk p (backing this) of
             (Undefined, b') \<Rightarrow> (Undefined, this\<lparr> backing := b' \<rparr>)
           | (Throws e, b') \<Rightarrow> (Throws e, this\<lparr> backing := b' \<rparr>)
           | (Returns ret, b') \<Rightarrow>
               (let this = this\<lparr> backing := b' \<rparr> in
                if ret = nullptr
                then (Returns ret,
                      this\<lparr> m_reclaim_failC := fetch_add (m_reclaim_failC this) 1 \<rparr>)
                else (case getAllocSize p this of
                        Undefined \<Rightarrow> (Undefined, this)
                      | Throws e \<Rightarrow> (Throws e, this)
                      | Returns n \<Rightarrow>
                          (Returns ret,
                           this\<lparr> m_reclaimB := fetch_add (m_reclaimB this) n \<rparr>)))))"

subsection \<open>reset, purge and clear\<close>

definition reset :: "'b AllocatorStatistic \<Rightarrow> unit outcome \<times> 'b AllocatorStatistic" where
  "reset this0 =
     (let this = resetCounters this0 in
      case m_basic_backing this of
        None \<Rightarrow> (Undefined, this)
      | Some bk \<Rightarrow>
          (case b_reset bk (backing this) of
             (r, b') \<Rightarrow> (r, this\<lparr> backing := b' \<rparr>)))"

definition purge ::
  "uint32_t \<Rightarrow> 'b AllocatorStatistic \<Rightarrow> unit outcome \<times> 'b AllocatorStatistic" where
  "purge priority this =
     (case m_object_backing this of
        None \<Rightarrow> (Undefined, this)
      | Some bk \<Rightarrow>
          (case o_purge bk priority (backing this) of
             (r, b') \<Rightarrow> (r, this\<lparr> backing := b' \<rparr>)))"

definition clear :: "'b AllocatorStatistic \<Rightarrow> unit outcome \<times> 'b AllocatorStatistic" where
  "clear this0 =
     (let this = resetCounters this0 in
      case m_object_backing this of
        None \<Rightarrow> (Undefined, this)
      | Some bk \<Rightarrow>
          (case o_clear bk (backing this) of
             (r, b') \<Rightarrow> (r, this\<lparr> backing := b' \<rparr>)))"

section \<open>Reading all the statistics\<close>

text \<open>The eighteen counter fields as they are stored, in the order of the class.\<close>

definition counters :: "'b AllocatorStatistic \<Rightarrow> 64 word list" where
  "counters this =
     [m_smallest this, m_largest this, m_highest this,
      m_allocC this, m_alloc_failC this, m_alloc_largest_fail this, m_allocB this,
      m_reallocC this, m_realloc_failC this, m_realloc_growthB this,
      m_realloc_shrinkB this, m_realloc_moveC this, m_realloc_moveB this,
      m_offerC this, m_offerB this, m_reclaimC this, m_reclaim_failC this,
      m_reclaimB this]"

text \<open>
  The read accessors: the three running maxima, the running minimum, and the fourteen
  counters that only ever receive \<open>fetch_add\<close>.
\<close>

definition maximum_accessors :: "('b AllocatorStatistic \<Rightarrow> 64 word) list" where
  "maximum_accessors = [getHighestUsage, getLargestAlloc, getLargestAllocFailed]"

definition cumulative_accessors :: "('b AllocatorStatistic \<Rightarrow> 64 word) list" where
  "cumulative_accessors =
     [getTotalAllocs, getTotalAllocFails, getTotalAllocBytes,
      getTotalReallocs, getTotalReallocFails, getTotalReallocGrowth,
      getTotalReallocShrink, getTotalReallocMoves, getTotalReallocMoved,
      getTotalOffers, getTotalOfferBytes, getTotalReclaims, getTotalReclaimFails,
      getTotalReclaimBytes]"

definition accessors :: "('b AllocatorStatistic \<Rightarrow> 64 word) list" where
  "accessors = getSmallestAlloc # maximum_accessors @ cumulative_accessors"

definition readings :: "'b AllocatorStatistic \<Rightarrow> 64 word list" where
  "readings this = map (\<lambda>get. get this) accessors"

section \<open>Sequences of calls\<close>

text \<open>
  A caller of the proxy, one call after the other. An exception is caught by the caller,
  who goes on with the next call. What a call returned is kept with the state.
\<close>

datatype call =
    Alloc size_t size_t
  | AllocDestructor size_t DestructorPtr size_t
  | Free ptr
  | Realloc ptr size_t size_t
  | ReallocDestructor ptr size_t DestructorPtr size_t
  | Offer ptr uint32_t
  | Reclaim ptr
  | Reset
  | Purge uint32_t
  | Clear
  | ResetCounters

datatype retval = Pointer ptr | Void

fun invoke :: "call \<Rightarrow> 'b AllocatorStatistic \<Rightarrow> retval outcome \<times> 'b AllocatorStatistic" where
  "invoke (Alloc bytes align) this = apfst (map_outcome Pointer) (alloc bytes align this)"
| "invoke (AllocDestructor bytes d align) this =
     apfst (map_outcome Pointer) (alloc_destructor bytes d align this)"
| "invoke (Free p) this = apfst (map_outcome (\<lambda>_. Void)) (free p this)"
| "invoke (Realloc p bytes align) this =
     apfst (map_outcome Pointer) (realloc p bytes align this)"
| "invoke (ReallocDestructor p bytes d align) this =
     apfst (map_outcome Pointer) (realloc_destructor p bytes d align this)"
| "invoke (Offer p priority) this = apfst (map_outcome Pointer) (offer p priority this)"
| "invoke (Reclaim p) this = apfst (map_outcome Pointer) (reclaim p this)"
| "invoke Reset this = apfst (map_outcome (\<lambda>_. Void)) (reset this)"
| "invoke (Purge priority) this = apfst (map_outcome (\<lambda>_. Void)) (purge priority this)"
| "invoke Clear this = apfst (map_outcome (\<lambda>_. Void)) (clear this)"
| "invoke ResetCounters this = (Returns Void, resetCounters this)"

fun run ::
  "call list \<Rightarrow> 'b AllocatorStatistic \<Rightarrow> retval outcome list \<times> 'b AllocatorStatistic" where
  "run [] this = ([], this)"
| "run (c # cs) this =
     (case invoke c this of
        (r, this') \<Rightarrow> (case run cs this' of (rs, this'') \<Rightarrow> (r # rs, this'')))"

text \<open>A call succeeded when it returned a pointer that is not null.\<close>

fun succeeded :: "retval outcome \<Rightarrow> bool" where
  "succeeded (Returns (Pointer p)) = (p \<noteq> nullptr)"
| "succeeded _ = False"

text \<open>It failed when it returned the null pointer or threw.\<close>

fun failed :: "retval outcome \<Rightarrow> bool" where
  "failed (Returns (Pointer p)) = (p = nullptr)"
| "failed (Throws e) = True"
| "failed _ = False"

fun is_alloc :: "call \<Rightarrow> bool" where
  "is_alloc (Alloc bytes align) = True"
| "is_alloc (AllocDestructor bytes d align) = True"
| "is_alloc _ = False"

text \<open>The calls that run \<open>resetCounters()\<close>.\<close>

fun is_reset :: "call \<Rightarrow> bool" where
  "is_reset Reset = True"
| "is_reset Clear = True"
| "is_reset ResetCounters = True"
| "is_reset _ = False"

text \<open>The \<open>bytes\<close> argument of a call, and its pointer argument.\<close>

fun requested :: "call \<Rightarrow> size_t" where
  "requested (Alloc bytes align) = bytes"
| "requested (AllocDestructor bytes d align) = bytes"
| "requested (Realloc p bytes align) = bytes"
| "requested (ReallocDestructor p bytes d align) = bytes"
| "requested _ = 0"

fun pointer_of :: "call \<Rightarrow> ptr" where
  "pointer_of (Free p) = p"
| "pointer_of (Realloc p bytes align) = p"
| "pointer_of (ReallocDestructor p bytes d align) = p"
| "pointer_of (Offer p priority) = p"
| "pointer_of (Reclaim p) = p"
| "pointer_of _ = nullptr"

fun is_realloc :: "call \<Rightarrow> bool" where
  "is_realloc (Realloc p bytes align) = True"
| "is_realloc (ReallocDestructor p bytes d align) = True"
| "is_realloc _ = False"

text \<open>
  A block of \<open>requested c\<close> bytes handed out at \<open>p\<close> lies inside the address space: its
  end \<open>p + requested c\<close> is an address not below \<open>p\<close> (the sum does not wrap around).
  This is what "at least \<open>bytes\<close> usable bytes at the returned address" asks of a
  backend.
\<close>

fun granted_block_fits :: "call \<Rightarrow> retval outcome \<Rightarrow> bool" where
  "granted_block_fits c (Returns (Pointer p)) = (p \<le> p + requested c)"
| "granted_block_fits c _ = True"

text \<open>
  Half of the range of a 64-bit counter: two values below it add up without wrapping.
\<close>

definition wrap_margin :: "64 word" where
  "wrap_margin = 9223372036854775808"

text \<open>The size the backend reports for a block, if it reports one, is below a bound.\<close>

definition reported_size_below :: "size_t \<Rightarrow> ptr \<Rightarrow> 'b AllocatorStatistic \<Rightarrow> bool" where
  "reported_size_below bound p this =
     (case getAllocSize p this of Returns n \<Rightarrow> n < bound | _ \<Rightarrow> True)"

section \<open>A backend for concrete runs\<close>

text \<open>
  The repository has no allocator of its own behind the two interfaces. Concrete runs use
  a test double that replays a script: every call that returns a pointer takes the next
  entry of the script (the null pointer once the script is used up), the size of a block
  is looked up in a table (0 for an address that is not a live block), and the used bytes
  are a fixed number.
\<close>

record ScriptedAllocator =
  script :: "ptr outcome list"
  sizes :: "(ptr \<times> size_t) list"
  used :: size_t

definition next_result :: "ScriptedAllocator \<Rightarrow> ptr outcome \<times> ScriptedAllocator" where
  "next_result s =
     (case script s of
        [] \<Rightarrow> (Returns nullptr, s)
      | r # rs \<Rightarrow> (r, s\<lparr> script := rs \<rparr>))"

definition size_of_block :: "ptr \<Rightarrow> ScriptedAllocator \<Rightarrow> size_t outcome" where
  "size_of_block p s = Returns (case map_of (sizes s) p of None \<Rightarrow> 0 | Some n \<Rightarrow> n)"

definition scripted :: "ScriptedAllocator ObjectAllocator" where
  "scripted =
     \<lparr> b_alloc = (\<lambda>bytes align. next_result),
       b_free = (\<lambda>p s. (Returns (), s)),
       b_realloc = (\<lambda>p bytes align. next_result),
       b_getAllocSize = size_of_block,
       b_reset = (\<lambda>s. (Returns (), s)),
       b_getFreeBytes = (\<lambda>s. Returns 0),
       b_getUsedBytes = (\<lambda>s. Returns (used s)),
       b_getTotalBytes = (\<lambda>s. Returns (used s)),
       o_alloc = (\<lambda>bytes d align. next_result),
       o_realloc = (\<lambda>p bytes d align. next_result),
       o_offer = (\<lambda>p priority. next_result),
       o_reclaim = (\<lambda>p. next_result),
       o_purge = (\<lambda>priority s. (Returns (), s)),
       o_clear = (\<lambda>s. (Returns (), s)),
       o_getPendingBytes = (\<lambda>s. Returns 0) \<rparr>"

text \<open>A proxy in front of the test double.\<close>

definition scripted_proxy ::
  "ptr outcome list \<Rightarrow> (ptr \<times> size_t) list \<Rightarrow> size_t
     \<Rightarrow> ScriptedAllocator AllocatorStatistic" where
  "scripted_proxy rs tab u =
     AllocatorStatistic_object scripted \<lparr> script = rs, sizes = tab, used = u \<rparr>"

section \<open>The update loops\<close>

lemma store_max_eq [simp]: "store_max cell desired = max cell desired"
  by (auto simp: store_max_def cas_max_loop.simps max_def)

lemma store_min_eq [simp]: "store_min cell desired = min cell desired"
  by (auto simp: store_min_def cas_min_loop.simps min_def)

section \<open>Unfolding the model\<close>

lemmas accessor_defs =
  getHighestUsage_def getSmallestAlloc_def getLargestAlloc_def getTotalAllocs_def
  getTotalAllocFails_def getLargestAllocFailed_def getTotalAllocBytes_def
  getTotalReallocs_def getTotalReallocFails_def getTotalReallocGrowth_def
  getTotalReallocShrink_def getTotalReallocMoves_def getTotalReallocMoved_def
  getTotalOffers_def getTotalOfferBytes_def getTotalReclaims_def
  getTotalReclaimFails_def getTotalReclaimBytes_def

lemmas listing_defs =
  accessors_def maximum_accessors_def cumulative_accessors_def readings_def counters_def

lemmas query_defs =
  getAllocSize_def getUsedBytes_def fetch_add_def Let_def

lemmas scripted_defs =
  scripted_proxy_def scripted_def AllocatorStatistic_object_def
  AllocatorStatistic_default_def next_result_def size_of_block_def
  BasicAllocator.truncate_def nullptr_def size_t_max_def

lemmas call_splits = option.splits prod.splits outcome.splits if_splits

section \<open>reclaim\<close>

text \<open>
  What \<open>reclaim\<close> does to its three counters: the call is counted whatever happens; a null
  result counts a failure and adds no bytes; a result that is not null adds the size that
  the backend reports, after the reclaim, for the pointer that was passed in.
\<close>

lemma reclaim_counts_call:
  "m_reclaimC (snd (reclaim p this)) = m_reclaimC this + 1"
  by (auto simp: reclaim_def query_defs split: call_splits)

lemma reclaim_null:
  "fst (reclaim p this) = Returns nullptr \<Longrightarrow>
     m_reclaim_failC (snd (reclaim p this)) = m_reclaim_failC this + 1
     \<and> m_reclaimB (snd (reclaim p this)) = m_reclaimB this"
  by (auto simp: reclaim_def query_defs split: call_splits)

lemma reclaim_not_null:
  "fst (reclaim p this) = Returns ret \<Longrightarrow> ret \<noteq> nullptr \<Longrightarrow>
     \<exists>n. getAllocSize p (snd (reclaim p this)) = Returns n
       \<and> m_reclaimB (snd (reclaim p this)) = m_reclaimB this + n
       \<and> m_reclaim_failC (snd (reclaim p this)) = m_reclaim_failC this"
  by (auto simp: reclaim_def query_defs split: call_splits)

text \<open>
  C1. The claim: every \<open>reclaim\<close> counts the call; a null result counts a reclaim failure
  and leaves the reclaimed bytes as they were; a result that is not null adds the size of
  the handle returned by the reclaim (in the round trip \<open>reclaim(offer(h))\<close> on a backend
  that keeps the block, \<open>sizeOf(h)\<close>).

  The code asks the backend for the size of the offer token it was given, not of the handle
  it got back. On a backend whose offer tokens are not block addresses the two differ: the
  block at \<open>0x1000\<close> has 64 bytes, offering it returns the token \<open>0x2000\<close>, reclaiming the
  token returns \<open>0x1000\<close> again, and the size of \<open>0x2000\<close> is reported as 0. The round trip
  adds 64 to the offered bytes and nothing to the reclaimed bytes, while the block that
  came back has 64 bytes.
\<close>

theorem reclaim_adds_size_of_offer_token:
  "(case offer 0x1000 0
           (scripted_proxy [Returns 0x2000, Returns 0x1000] [(0x1000, 64)] 64) of
      (token, offered) \<Rightarrow>
        (case reclaim 0x2000 offered of
           (handle, reclaimed) \<Rightarrow>
             token = Returns 0x2000
             \<and> handle = Returns 0x1000
             \<and> getAllocSize 0x1000 reclaimed = Returns 64
             \<and> getAllocSize 0x2000 reclaimed = Returns 0
             \<and> getTotalOfferBytes offered = 64
             \<and> getTotalReclaims reclaimed = 1
             \<and> getTotalReclaimFails reclaimed = 0
             \<and> getTotalReclaimBytes offered = 0
             \<and> getTotalReclaimBytes reclaimed = 0))"
  by (simp add: scripted_defs offer_def reclaim_def query_defs accessor_defs)

section \<open>Where the counters are zeroed\<close>

text \<open>
  C7. Right after \<open>resetCounters()\<close> every read accessor returns 0, \<open>getSmallestAlloc()\<close>
  included (the field itself holds the "no success yet" value), whatever the proxy went
  through before; the backend is not called: its state and the two backing pointers are
  what they were.
\<close>

theorem resetCounters_reads_zero:
  "readings (resetCounters this) = replicate 18 0
   \<and> m_smallest (resetCounters this) = size_t_max
   \<and> backing (resetCounters this) = backing this
   \<and> m_basic_backing (resetCounters this) = m_basic_backing this
   \<and> m_object_backing (resetCounters this) = m_object_backing this"
  by (simp add: listing_defs accessor_defs resetCounters_def numeral_eq_Suc)

text \<open>
  C9. \<open>free(handle)\<close> and \<open>purge(priority)\<close> only delegate: the eighteen counter fields,
  and so all the readings, are after the call what they were before it.
\<close>

theorem free_purge_keep_counters:
  "counters (snd (free p this)) = counters this
   \<and> readings (snd (free p this)) = readings this
   \<and> counters (snd (purge priority this)) = counters this
   \<and> readings (snd (purge priority this)) = readings this"
  by (auto simp: listing_defs accessor_defs free_def purge_def split: call_splits)


section \<open>Runs\<close>

lemmas op_defs =
  alloc_def alloc_destructor_def free_def realloc_def realloc_destructor_def
  offer_def reclaim_def purge_def

lemma fst_run_Cons:
  "fst (run (c # cs) this) = fst (invoke c this) # fst (run cs (snd (invoke c this)))"
  by (simp split: prod.splits)

lemma snd_run_Cons:
  "snd (run (c # cs) this) = snd (run cs (snd (invoke c this)))"
  by (simp split: prod.splits)

section \<open>Counting the calls of alloc\<close>

lemma invoke_alloc_counts_call:
  "is_alloc c \<Longrightarrow> m_allocC (snd (invoke c this)) = m_allocC this + 1"
  by (cases c) (auto simp: alloc_def alloc_destructor_def query_defs split: call_splits)

lemma invoke_alloc_counts_failure:
  "is_alloc c \<Longrightarrow> fst (invoke c this) \<noteq> Undefined \<Longrightarrow>
     m_alloc_failC (snd (invoke c this)) =
       m_alloc_failC this + (if failed (fst (invoke c this)) then 1 else 0)"
  by (cases c) (auto simp: alloc_def alloc_destructor_def query_defs split: call_splits)

lemma invoke_alloc_outcome:
  "is_alloc c \<Longrightarrow> fst (invoke c this) \<noteq> Undefined \<Longrightarrow>
     succeeded (fst (invoke c this)) \<noteq> failed (fst (invoke c this))"
  by (cases c) (auto simp: alloc_def alloc_destructor_def query_defs split: call_splits)

lemma invoke_alloc_thrown:
  "is_alloc c \<Longrightarrow> fst (invoke c this) = Throws e \<Longrightarrow>
     m_alloc_failC (snd (invoke c this)) = m_alloc_failC this + 1
     \<and> m_alloc_largest_fail (snd (invoke c this)) =
         max (m_alloc_largest_fail this) (requested c)"
  by (cases c) (auto simp: alloc_def alloc_destructor_def query_defs split: call_splits)

lemma alloc_rethrows:
  "m_basic_backing this = Some bk \<Longrightarrow>
   b_alloc bk bytes align (backing this) = (Throws e, b') \<Longrightarrow>
     alloc bytes align this =
       (Throws e,
        this\<lparr> m_allocC := m_allocC this + 1, backing := b',
              m_alloc_failC := m_alloc_failC this + 1,
              m_alloc_largest_fail := max (m_alloc_largest_fail this) bytes \<rparr>)"
  by (simp add: alloc_def query_defs)

lemma alloc_destructor_rethrows:
  "m_object_backing this = Some ob \<Longrightarrow>
   o_alloc ob bytes d align (backing this) = (Throws e, b') \<Longrightarrow>
     alloc_destructor bytes d align this =
       (Throws e,
        this\<lparr> m_allocC := m_allocC this + 1, backing := b',
              m_alloc_failC := m_alloc_failC this + 1,
              m_alloc_largest_fail := max (m_alloc_largest_fail this) bytes \<rparr>)"
  by (simp add: alloc_destructor_def query_defs)

lemma run_alloc_counts_calls:
  "list_all is_alloc cs \<Longrightarrow>
     m_allocC (snd (run cs this)) = m_allocC this + of_nat (length cs)"
proof (induction cs arbitrary: this)
  case Nil
  then show ?case by simp
next
  case (Cons c cs)
  then show ?case
    by (simp add: snd_run_Cons invoke_alloc_counts_call del: run.simps)
qed

lemma run_alloc_counts_failures:
  "list_all is_alloc cs \<Longrightarrow> Undefined \<notin> set (fst (run cs this)) \<Longrightarrow>
     m_alloc_failC (snd (run cs this)) =
       m_alloc_failC this + of_nat (length (filter failed (fst (run cs this))))"
proof (induction cs arbitrary: this)
  case Nil
  then show ?case by simp
next
  case (Cons c cs)
  from Cons.prems have "fst (invoke c this) \<noteq> Undefined"
    by (auto simp: fst_run_Cons simp del: run.simps)
  with Cons show ?case
    by (simp add: snd_run_Cons fst_run_Cons invoke_alloc_counts_failure del: run.simps)
qed

lemma run_alloc_outcomes:
  "list_all is_alloc cs \<Longrightarrow> Undefined \<notin> set (fst (run cs this)) \<Longrightarrow>
     length (filter succeeded (fst (run cs this)))
       + length (filter failed (fst (run cs this))) = length cs"
proof (induction cs arbitrary: this)
  case Nil
  then show ?case by simp
next
  case (Cons c cs)
  from Cons.prems
  have "succeeded (fst (invoke c this)) \<noteq> failed (fst (invoke c this))"
    by (intro invoke_alloc_outcome) (auto simp: fst_run_Cons simp del: run.simps)
  with Cons show ?case
    by (auto simp add: snd_run_Cons fst_run_Cons simp del: run.simps)
qed

text \<open>
  C3. Over any sequence of \<open>alloc\<close> calls (either overload) in which no call runs into
  undefined behaviour, the call counter grows by the number of successes plus the number
  of failures, and the failure counter by the number of failures, a call that threw being
  a failure. The call counter is bumped by every call, before the backend is asked. A
  call that leaves by an exception has counted a failure and raised the largest failed
  size to at least its request; and when the backend's \<open>alloc\<close> throws, the exception that
  leaves the proxy is that same exception. (Counters are 64-bit: the sums are modulo
  \<open>2 ^ 64\<close>.)
\<close>

theorem alloc_calls_are_successes_plus_failures:
  "(list_all is_alloc cs \<and> Undefined \<notin> set (fst (run cs this)) \<longrightarrow>
      getTotalAllocs (snd (run cs this)) =
        getTotalAllocs this
          + of_nat (length (filter succeeded (fst (run cs this))))
          + of_nat (length (filter failed (fst (run cs this))))
      \<and> getTotalAllocFails (snd (run cs this)) =
          getTotalAllocFails this + of_nat (length (filter failed (fst (run cs this)))))
   \<and> (is_alloc c \<longrightarrow> getTotalAllocs (snd (invoke c this)) = getTotalAllocs this + 1)
   \<and> (is_alloc c \<and> fst (invoke c this) = Throws e \<longrightarrow>
        getTotalAllocFails (snd (invoke c this)) = getTotalAllocFails this + 1
        \<and> getLargestAllocFailed (snd (invoke c this)) =
            max (getLargestAllocFailed this) (requested c))
   \<and> (m_basic_backing this = Some bk
        \<and> b_alloc bk bytes align (backing this) = (Throws e, b') \<longrightarrow>
        fst (alloc bytes align this) = Throws e)
   \<and> (m_object_backing this = Some ob
        \<and> o_alloc ob bytes d align (backing this) = (Throws e, b') \<longrightarrow>
        fst (alloc_destructor bytes d align this) = Throws e)"
proof -
  have "getTotalAllocs (snd (run cs this)) =
        getTotalAllocs this
          + of_nat (length (filter succeeded (fst (run cs this))))
          + of_nat (length (filter failed (fst (run cs this))))"
    if "list_all is_alloc cs" "Undefined \<notin> set (fst (run cs this))"
  proof -
    have "getTotalAllocs (snd (run cs this)) = getTotalAllocs this + of_nat (length cs)"
      using that by (simp add: getTotalAllocs_def run_alloc_counts_calls)
    also have "length cs =
        length (filter succeeded (fst (run cs this)))
          + length (filter failed (fst (run cs this)))"
      using that by (simp add: run_alloc_outcomes)
    finally show ?thesis by (simp add: add.assoc)
  qed
  then show ?thesis
    by (simp add: getTotalAllocs_def getTotalAllocFails_def getLargestAllocFailed_def
        run_alloc_counts_failures invoke_alloc_counts_call invoke_alloc_thrown
        alloc_rethrows alloc_destructor_rethrows)
qed

text \<open>
  C3 on a run: the backend throws \<open>bad_alloc\<close> on the first request, serves the second and
  returns the null pointer on the third. Three calls, one success, two failures; the first
  call leaves with the backend's exception and the largest failed size is its 64 bytes.
\<close>

theorem alloc_calls_are_successes_plus_failures_witness:
  "list_all is_alloc [Alloc 64 8, AllocDestructor 32 7 8, Alloc 16 8]
   \<and> fst (run [Alloc 64 8, AllocDestructor 32 7 8, Alloc 16 8]
          (scripted_proxy [Throws (Exception ''bad_alloc''), Returns 0x1000, Returns 0] [] 32))
       = [Throws (Exception ''bad_alloc''), Returns (Pointer 0x1000), Returns (Pointer 0)]
   \<and> getTotalAllocs
        (snd (run [Alloc 64 8, AllocDestructor 32 7 8, Alloc 16 8]
          (scripted_proxy [Throws (Exception ''bad_alloc''), Returns 0x1000, Returns 0] [] 32)))
       = 0 + 1 + 2
   \<and> getTotalAllocFails
        (snd (run [Alloc 64 8, AllocDestructor 32 7 8, Alloc 16 8]
          (scripted_proxy [Throws (Exception ''bad_alloc''), Returns 0x1000, Returns 0] [] 32)))
       = 2
   \<and> fst (alloc 64 8
          (scripted_proxy [Throws (Exception ''bad_alloc''), Returns 0x1000, Returns 0] [] 32))
       = Throws (Exception ''bad_alloc'')
   \<and> getLargestAllocFailed
        (snd (invoke (Alloc 64 8)
          (scripted_proxy [Throws (Exception ''bad_alloc''), Returns 0x1000, Returns 0] [] 32)))
       = 64"
  using alloc_calls_are_successes_plus_failures
    [of "[Alloc 64 8, AllocDestructor 32 7 8, Alloc 16 8]"
        "scripted_proxy [Throws (Exception ''bad_alloc''), Returns 0x1000, Returns 0] [] 32"
        "Alloc 64 8" "Exception ''bad_alloc''" "BasicAllocator.truncate scripted" 64 8
        "\<lparr> script = [Returns 0x1000, Returns 0], sizes = [], used = 32 \<rparr>"
        scripted 7]
  by (simp add: scripted_defs op_defs query_defs accessor_defs)

section \<open>The largest and the smallest successful size\<close>

lemma word_le_size_t_max: "(x :: 64 word) \<le> size_t_max"
proof -
  have top: "size_t_max = (- 1 :: 64 word)"
    by (simp add: size_t_max_def)
  show ?thesis
    unfolding top by (rule word_n1_ge)
qed

lemma invoke_alloc_success_extrema:
  "is_alloc c \<Longrightarrow> succeeded (fst (invoke c this)) \<Longrightarrow>
     m_largest (snd (invoke c this)) = max (m_largest this) (requested c)
     \<and> m_smallest (snd (invoke c this)) = min (m_smallest this) (requested c)"
  by (cases c) (auto simp: alloc_def alloc_destructor_def query_defs split: call_splits)

lemma run_alloc_success_extrema:
  "list_all is_alloc cs \<Longrightarrow> list_all succeeded (fst (run cs this)) \<Longrightarrow>
     m_largest (snd (run cs this)) = fold max (map requested cs) (m_largest this)
     \<and> m_smallest (snd (run cs this)) = fold min (map requested cs) (m_smallest this)"
proof (induction cs arbitrary: this)
  case Nil
  then show ?case by simp
next
  case (Cons c cs)
  then show ?case
    by (simp add: snd_run_Cons fst_run_Cons invoke_alloc_success_extrema
        max.commute min.commute del: run.simps)
qed

lemma fold_max_zero:
  fixes xs :: "64 word list"
  assumes "xs \<noteq> []"
  shows "fold max xs 0 = Max (set xs)"
proof -
  have "fold max xs 0 = Max (set (0 # xs))"
    by (simp only: Max.set_eq_fold)
  also have "\<dots> = max 0 (Max (set xs))"
    using assms by simp
  also have "\<dots> = Max (set xs)"
    by (simp add: max_def)
  finally show ?thesis .
qed

lemma fold_min_size_t_max:
  fixes xs :: "64 word list"
  assumes "xs \<noteq> []"
  shows "fold min xs size_t_max = Min (set xs)"
proof -
  have "fold min xs size_t_max = Min (set (size_t_max # xs))"
    by (simp only: Min.set_eq_fold)
  also have "\<dots> = min size_t_max (Min (set xs))"
    using assms by simp
  also have "\<dots> = Min (set xs)"
    by (simp add: min_def word_le_size_t_max antisym)
  finally show ?thesis .
qed

text \<open>
  The smallest size is kept in a field whose "no success yet" value is the largest
  \<open>size_t\<close>, and the accessor reads that value as 0. So for a run of successful \<open>alloc\<close>
  calls the accessor returns the smallest requested size unless that size is the largest
  \<open>size_t\<close> itself.
\<close>

lemma largest_smallest_with_sentinel:
  assumes "list_all is_alloc cs"
      and "list_all succeeded (fst (run cs this))"
      and "m_largest this = 0"
      and "m_smallest this = size_t_max"
  shows "(cs = [] \<longrightarrow>
            getLargestAlloc (snd (run cs this)) = 0
            \<and> getSmallestAlloc (snd (run cs this)) = 0)
         \<and> (cs \<noteq> [] \<longrightarrow>
              getLargestAlloc (snd (run cs this)) = Max (set (map requested cs))
              \<and> getSmallestAlloc (snd (run cs this)) =
                  (if Min (set (map requested cs)) = size_t_max then 0
                   else Min (set (map requested cs))))"
proof (cases "cs = []")
  case True
  with assms show ?thesis
    by (simp add: getLargestAlloc_def getSmallestAlloc_def)
next
  case False
  then have ne: "map requested cs \<noteq> []"
    by simp
  from assms have "m_largest (snd (run cs this)) = fold max (map requested cs) 0"
    and "m_smallest (snd (run cs this)) = fold min (map requested cs) size_t_max"
    using run_alloc_success_extrema [of cs this] by simp_all
  with False show ?thesis
    by (simp only: fold_max_zero [OF ne] fold_min_size_t_max [OF ne]
        getLargestAlloc_def getSmallestAlloc_def Let_def) simp
qed

text \<open>
  A block that was handed out and lies inside the address space has fewer bytes than the
  largest \<open>size_t\<close>: at an address that is not null, that many bytes run past the end.
\<close>

lemma fitting_block_below_size_t_max:
  assumes "succeeded r" and "granted_block_fits c r"
  shows "requested c \<noteq> size_t_max"
proof
  assume top: "requested c = size_t_max"
  from assms(1) obtain p where r: "r = Returns (Pointer p)" and p: "p \<noteq> 0"
    by (cases r rule: succeeded.cases) (auto simp: nullptr_def)
  have "size_t_max = (- 1 :: 64 word)"
    by (simp add: size_t_max_def)
  with assms(2) r top have "p \<le> p + (- 1)"
    by simp
  then have "p \<le> p - 1"
    by simp
  moreover from p have "p - 1 < p"
    by (simp add: word_less_nat_alt unat_minus_one unat_gt_0)
  ultimately show False
    by simp
qed

lemma run_fitting_blocks_below_size_t_max:
  "list_all succeeded (fst (run cs this)) \<Longrightarrow>
   list_all2 granted_block_fits cs (fst (run cs this)) \<Longrightarrow>
     size_t_max \<notin> set (map requested cs)"
proof (induction cs arbitrary: this)
  case Nil
  then show ?case by simp
next
  case (Cons c cs)
  then show ?case
    using fitting_block_below_size_t_max [of "fst (invoke c this)" c]
    by (auto simp: fst_run_Cons simp del: run.simps)
qed

text \<open>
  C4. Start from a proxy whose largest and smallest fields hold their initial values (as
  the constructors and \<open>resetCounters()\<close> leave them) and run a sequence of \<open>alloc\<close> calls
  (either overload) with requested sizes \<open>s1 .. sn\<close> that all succeed, each returning a
  block that lies inside the address space. Then \<open>getLargestAlloc()\<close> returns the largest
  of the \<open>si\<close> and \<open>getSmallestAlloc()\<close> the smallest of them; with no call at all
  (\<open>n = 0\<close>) \<open>getSmallestAlloc()\<close>, and \<open>getLargestAlloc()\<close> too, returns 0.
\<close>

theorem largest_smallest_of_successful_allocs:
  assumes "list_all is_alloc cs"
      and "list_all succeeded (fst (run cs this))"
      and "list_all2 granted_block_fits cs (fst (run cs this))"
      and "m_largest this = 0"
      and "m_smallest this = size_t_max"
  shows "(cs = [] \<longrightarrow>
            getLargestAlloc (snd (run cs this)) = 0
            \<and> getSmallestAlloc (snd (run cs this)) = 0)
         \<and> (cs \<noteq> [] \<longrightarrow>
              getLargestAlloc (snd (run cs this)) = Max (set (map requested cs))
              \<and> getSmallestAlloc (snd (run cs this)) = Min (set (map requested cs)))"
proof (cases "cs = []")
  case True
  with assms show ?thesis
    by (simp add: getLargestAlloc_def getSmallestAlloc_def)
next
  case False
  then have "Min (set (map requested cs)) \<in> set (map requested cs)"
    by (intro Min_in) simp_all
  moreover have "size_t_max \<notin> set (map requested cs)"
    using assms(2,3) by (rule run_fitting_blocks_below_size_t_max)
  ultimately have "Min (set (map requested cs)) \<noteq> size_t_max"
    by metis
  with False largest_smallest_with_sentinel [OF assms(1,2,4,5)]
  show ?thesis by simp
qed

text \<open>
  C4 on a run: three successful requests of 32, 16 and 64 bytes on a new proxy, through
  both overloads; the largest reads 64, which is the maximum of the three, and the
  smallest 16, their minimum.
\<close>

theorem largest_smallest_of_successful_allocs_witness:
  "list_all is_alloc [Alloc 32 8, AllocDestructor 16 7 8, Alloc 64 8]
   \<and> list_all succeeded
        (fst (run [Alloc 32 8, AllocDestructor 16 7 8, Alloc 64 8]
          (scripted_proxy [Returns 0x1000, Returns 0x2000, Returns 0x3000] [] 0)))
   \<and> list_all2 granted_block_fits [Alloc 32 8, AllocDestructor 16 7 8, Alloc 64 8]
        (fst (run [Alloc 32 8, AllocDestructor 16 7 8, Alloc 64 8]
          (scripted_proxy [Returns 0x1000, Returns 0x2000, Returns 0x3000] [] 0)))
   \<and> m_largest (scripted_proxy [Returns 0x1000, Returns 0x2000, Returns 0x3000] [] 0) = 0
   \<and> m_smallest (scripted_proxy [Returns 0x1000, Returns 0x2000, Returns 0x3000] [] 0)
       = size_t_max
   \<and> Max (set (map requested [Alloc 32 8, AllocDestructor 16 7 8, Alloc 64 8])) = 64
   \<and> Min (set (map requested [Alloc 32 8, AllocDestructor 16 7 8, Alloc 64 8])) = 16
   \<and> getLargestAlloc
        (snd (run [Alloc 32 8, AllocDestructor 16 7 8, Alloc 64 8]
          (scripted_proxy [Returns 0x1000, Returns 0x2000, Returns 0x3000] [] 0))) = 64
   \<and> getSmallestAlloc
        (snd (run [Alloc 32 8, AllocDestructor 16 7 8, Alloc 64 8]
          (scripted_proxy [Returns 0x1000, Returns 0x2000, Returns 0x3000] [] 0))) = 16"
  using largest_smallest_of_successful_allocs
    [of "[Alloc 32 8, AllocDestructor 16 7 8, Alloc 64 8]"
        "scripted_proxy [Returns 0x1000, Returns 0x2000, Returns 0x3000] [] 0"]
  by (simp add: scripted_defs op_defs query_defs accessor_defs)

section \<open>realloc\<close>

text \<open>
  C5. A \<open>realloc\<close> (either overload) that succeeds, of a block whose size the backend
  reported as \<open>A\<close> before the call, to \<open>B\<close> requested bytes: when \<open>B > A\<close> the growth counter
  gains exactly \<open>B - A\<close> and the shrink counter is unchanged; when \<open>B < A\<close> the shrink
  counter gains exactly \<open>A - B\<close> and the growth counter is unchanged; when \<open>B = A\<close> neither
  changes. This holds whether the block moved or not, so in particular when it did not.
\<close>

theorem realloc_growth_and_shrink:
  assumes "is_realloc c"
      and "getAllocSize (pointer_of c) this = Returns A"
      and "succeeded (fst (invoke c this))"
  shows "(A < requested c \<longrightarrow>
            getTotalReallocGrowth (snd (invoke c this)) =
              getTotalReallocGrowth this + (requested c - A)
            \<and> getTotalReallocShrink (snd (invoke c this)) = getTotalReallocShrink this)
         \<and> (requested c < A \<longrightarrow>
              getTotalReallocShrink (snd (invoke c this)) =
                getTotalReallocShrink this + (A - requested c)
              \<and> getTotalReallocGrowth (snd (invoke c this)) = getTotalReallocGrowth this)
         \<and> (requested c = A \<longrightarrow>
              getTotalReallocGrowth (snd (invoke c this)) = getTotalReallocGrowth this
              \<and> getTotalReallocShrink (snd (invoke c this)) = getTotalReallocShrink this)"
  using assms
  by (cases c)
     (auto simp: realloc_def realloc_destructor_def query_defs
        getTotalReallocGrowth_def getTotalReallocShrink_def split: call_splits)

text \<open>
  C5 on a run: a 32-byte block at \<open>0x1000\<close> is resized in place to 48 bytes; the growth
  counter reads 16 and the shrink counter 0.
\<close>

theorem realloc_growth_and_shrink_witness:
  "is_realloc (Realloc 0x1000 48 8)
   \<and> getAllocSize (pointer_of (Realloc 0x1000 48 8))
        (scripted_proxy [Returns 0x1000] [(0x1000, 32)] 32) = Returns 32
   \<and> fst (invoke (Realloc 0x1000 48 8) (scripted_proxy [Returns 0x1000] [(0x1000, 32)] 32))
       = Returns (Pointer 0x1000)
   \<and> (32 :: size_t) < requested (Realloc 0x1000 48 8)
   \<and> getTotalReallocGrowth
        (snd (invoke (Realloc 0x1000 48 8)
          (scripted_proxy [Returns 0x1000] [(0x1000, 32)] 32))) = 16
   \<and> getTotalReallocShrink
        (snd (invoke (Realloc 0x1000 48 8)
          (scripted_proxy [Returns 0x1000] [(0x1000, 32)] 32))) = 0"
  using realloc_growth_and_shrink
    [of "Realloc 0x1000 48 8" "scripted_proxy [Returns 0x1000] [(0x1000, 32)] 32" 32]
  by (simp add: scripted_defs op_defs query_defs accessor_defs)

lemma invoke_realloc_relocation:
  assumes "is_realloc c"
      and "fst (invoke c this) = Returns (Pointer ret)"
      and "ret \<noteq> nullptr"
  shows "(ret \<noteq> pointer_of c \<longrightarrow>
            m_realloc_moveC (snd (invoke c this)) = m_realloc_moveC this + 1
            \<and> m_realloc_moveB (snd (invoke c this)) = m_realloc_moveB this + requested c)
         \<and> (ret = pointer_of c \<longrightarrow>
              m_realloc_moveC (snd (invoke c this)) = m_realloc_moveC this
              \<and> m_realloc_moveB (snd (invoke c this)) = m_realloc_moveB this)"
  using assms
  by (cases c)
     (auto simp: realloc_def realloc_destructor_def query_defs split: call_splits)

lemma realloc_delegates:
  "m_basic_backing this = Some bk \<Longrightarrow> getAllocSize p this = Returns A \<Longrightarrow>
   b_realloc bk p bytes align (backing this) = (Returns r, b') \<Longrightarrow>
   b_getUsedBytes bk b' = Returns u \<Longrightarrow> r \<noteq> nullptr \<Longrightarrow>
     fst (realloc p bytes align this) = Returns r
     \<and> m_realloc_moveC (snd (realloc p bytes align this)) =
         m_realloc_moveC this + (if r \<noteq> p then 1 else 0)
     \<and> m_realloc_moveB (snd (realloc p bytes align this)) =
         m_realloc_moveB this + (if r \<noteq> p then bytes else 0)"
  by (auto simp: realloc_def query_defs split: call_splits)

lemma realloc_destructor_delegates:
  "m_basic_backing this = Some bk \<Longrightarrow> m_object_backing this = Some ob \<Longrightarrow>
   getAllocSize p this = Returns A \<Longrightarrow>
   o_realloc ob p bytes d align (backing this) = (Returns r, b') \<Longrightarrow>
   b_getUsedBytes bk b' = Returns u \<Longrightarrow> r \<noteq> nullptr \<Longrightarrow>
     fst (realloc_destructor p bytes d align this) = Returns r
     \<and> m_realloc_moveC (snd (realloc_destructor p bytes d align this)) =
         m_realloc_moveC this + (if r \<noteq> p then 1 else 0)
     \<and> m_realloc_moveB (snd (realloc_destructor p bytes d align this)) =
         m_realloc_moveB this + (if r \<noteq> p then bytes else 0)"
  by (auto simp: realloc_destructor_def query_defs split: call_splits)

text \<open>
  C6. A \<open>realloc\<close> (either overload) that succeeds and returns an address other than the
  one passed in adds exactly 1 to the relocation count and exactly the requested size to
  the relocated bytes; when it returns the address passed in, both stay as they were.
  And the address the proxy returns is the one its backend returned: when the backend's
  \<open>realloc\<close> answers with an address that is not null (the size and usage queries
  answering too), the proxy returns that address and counts a relocation exactly when it
  differs from the pointer passed in.
\<close>

theorem realloc_relocation_accounting:
  "(is_realloc c \<and> fst (invoke c this) = Returns (Pointer ret) \<and> ret \<noteq> nullptr \<longrightarrow>
      (ret \<noteq> pointer_of c \<longrightarrow>
         getTotalReallocMoves (snd (invoke c this)) = getTotalReallocMoves this + 1
         \<and> getTotalReallocMoved (snd (invoke c this)) =
             getTotalReallocMoved this + requested c)
      \<and> (ret = pointer_of c \<longrightarrow>
           getTotalReallocMoves (snd (invoke c this)) = getTotalReallocMoves this
           \<and> getTotalReallocMoved (snd (invoke c this)) = getTotalReallocMoved this))
   \<and> (m_basic_backing this = Some bk \<and> getAllocSize p this = Returns A
        \<and> b_realloc bk p bytes align (backing this) = (Returns r, b')
        \<and> b_getUsedBytes bk b' = Returns u \<and> r \<noteq> nullptr \<longrightarrow>
        fst (realloc p bytes align this) = Returns r
        \<and> getTotalReallocMoves (snd (realloc p bytes align this)) =
            getTotalReallocMoves this + (if r \<noteq> p then 1 else 0)
        \<and> getTotalReallocMoved (snd (realloc p bytes align this)) =
            getTotalReallocMoved this + (if r \<noteq> p then bytes else 0))
   \<and> (m_basic_backing this = Some bk \<and> m_object_backing this = Some ob
        \<and> getAllocSize p this = Returns A
        \<and> o_realloc ob p bytes d align (backing this) = (Returns r, b')
        \<and> b_getUsedBytes bk b' = Returns u \<and> r \<noteq> nullptr \<longrightarrow>
        fst (realloc_destructor p bytes d align this) = Returns r
        \<and> getTotalReallocMoves (snd (realloc_destructor p bytes d align this)) =
            getTotalReallocMoves this + (if r \<noteq> p then 1 else 0)
        \<and> getTotalReallocMoved (snd (realloc_destructor p bytes d align this)) =
            getTotalReallocMoved this + (if r \<noteq> p then bytes else 0))"
  unfolding getTotalReallocMoves_def getTotalReallocMoved_def
  using invoke_realloc_relocation [of c this ret]
    realloc_delegates [of this bk p A bytes align r b' u]
    realloc_destructor_delegates [of this bk ob p A bytes d align r b' u]
  by blast

text \<open>
  C6 on two runs, through \<open>realloc(ptr, bytes, align)\<close> and through the overload with a
  destructor. The 32-byte block at \<open>0x1000\<close> is resized to 48 bytes and the backend
  answers \<open>0x2000\<close>: the proxy returns \<open>0x2000\<close>, one relocation, 48 relocated bytes. The
  same block is resized to 16 bytes and the backend answers \<open>0x1000\<close>: the proxy returns
  \<open>0x1000\<close>, no relocation, no relocated bytes.
\<close>

theorem realloc_relocation_accounting_witness:
  "is_realloc (Realloc 0x1000 48 8)
   \<and> m_basic_backing
        (scripted_proxy [Returns 0x2000] [(0x1000, 32)] 32) = Some (BasicAllocator.truncate scripted)
   \<and> m_object_backing
        (scripted_proxy [Returns 0x2000] [(0x1000, 32)] 32) = Some scripted
   \<and> getAllocSize 0x1000
        (scripted_proxy [Returns 0x2000] [(0x1000, 32)] 32) = Returns 32
   \<and> b_realloc (BasicAllocator.truncate scripted) 0x1000 48 8 (backing
        (scripted_proxy [Returns 0x2000] [(0x1000, 32)] 32))
       = (Returns 0x2000, \<lparr> script = [], sizes = [(0x1000, 32)], used = 32 \<rparr>)
   \<and> o_realloc scripted 0x1000 48 7 8 (backing
        (scripted_proxy [Returns 0x2000] [(0x1000, 32)] 32))
       = (Returns 0x2000, \<lparr> script = [], sizes = [(0x1000, 32)], used = 32 \<rparr>)
   \<and> b_getUsedBytes (BasicAllocator.truncate scripted)
        \<lparr> script = [], sizes = [(0x1000, 32)], used = 32 \<rparr> = Returns 32
   \<and> (0x2000 :: ptr) \<noteq> nullptr
   \<and> (0x2000 :: ptr) \<noteq> pointer_of (Realloc 0x1000 48 8)
   \<and> fst (invoke (Realloc 0x1000 48 8)
        (scripted_proxy [Returns 0x2000] [(0x1000, 32)] 32)) = Returns (Pointer 0x2000)
   \<and> fst (realloc 0x1000 48 8
        (scripted_proxy [Returns 0x2000] [(0x1000, 32)] 32)) = Returns 0x2000
   \<and> getTotalReallocMoves (snd (realloc 0x1000 48 8
        (scripted_proxy [Returns 0x2000] [(0x1000, 32)] 32))) = 1
   \<and> getTotalReallocMoved (snd (realloc 0x1000 48 8
        (scripted_proxy [Returns 0x2000] [(0x1000, 32)] 32))) = 48
   \<and> getTotalReallocMoves (snd (invoke (Realloc 0x1000 48 8)
        (scripted_proxy [Returns 0x2000] [(0x1000, 32)] 32))) = 1
   \<and> getTotalReallocMoved (snd (invoke (Realloc 0x1000 48 8)
        (scripted_proxy [Returns 0x2000] [(0x1000, 32)] 32))) = 48
   \<and> fst (realloc_destructor 0x1000 48 7 8
        (scripted_proxy [Returns 0x2000] [(0x1000, 32)] 32)) = Returns 0x2000
   \<and> getTotalReallocMoves (snd (realloc_destructor 0x1000 48 7 8
        (scripted_proxy [Returns 0x2000] [(0x1000, 32)] 32))) = 1
   \<and> getTotalReallocMoved (snd (realloc_destructor 0x1000 48 7 8
        (scripted_proxy [Returns 0x2000] [(0x1000, 32)] 32))) = 48
   \<and> is_realloc (Realloc 0x1000 16 8)
   \<and> (0x1000 :: ptr) = pointer_of (Realloc 0x1000 16 8)
   \<and> fst (invoke (Realloc 0x1000 16 8)
        (scripted_proxy [Returns 0x1000] [(0x1000, 32)] 32)) = Returns (Pointer 0x1000)
   \<and> fst (realloc 0x1000 16 8
        (scripted_proxy [Returns 0x1000] [(0x1000, 32)] 32)) = Returns 0x1000
   \<and> getTotalReallocs (snd (realloc 0x1000 16 8
        (scripted_proxy [Returns 0x1000] [(0x1000, 32)] 32))) = 1
   \<and> getTotalReallocMoves (snd (realloc 0x1000 16 8
        (scripted_proxy [Returns 0x1000] [(0x1000, 32)] 32))) = 0
   \<and> getTotalReallocMoved (snd (realloc 0x1000 16 8
        (scripted_proxy [Returns 0x1000] [(0x1000, 32)] 32))) = 0
   \<and> fst (realloc_destructor 0x1000 16 7 8
        (scripted_proxy [Returns 0x1000] [(0x1000, 32)] 32)) = Returns 0x1000
   \<and> getTotalReallocMoves (snd (realloc_destructor 0x1000 16 7 8
        (scripted_proxy [Returns 0x1000] [(0x1000, 32)] 32))) = 0
   \<and> getTotalReallocMoved (snd (realloc_destructor 0x1000 16 7 8
        (scripted_proxy [Returns 0x1000] [(0x1000, 32)] 32))) = 0"
  using realloc_relocation_accounting
    [of "Realloc 0x1000 48 8" "scripted_proxy [Returns 0x2000] [(0x1000, 32)] 32" "0x2000"
        "BasicAllocator.truncate scripted" "0x1000" 32 48 8 "0x2000"
        "\<lparr> script = [], sizes = [(0x1000, 32)], used = 32 \<rparr>" 32 scripted 7]
    realloc_relocation_accounting
    [of "Realloc 0x1000 16 8" "scripted_proxy [Returns 0x1000] [(0x1000, 32)] 32" "0x1000"
        "BasicAllocator.truncate scripted" "0x1000" 32 16 8 "0x1000"
        "\<lparr> script = [], sizes = [(0x1000, 32)], used = 32 \<rparr>" 32 scripted 7]
  by (simp add: scripted_defs op_defs query_defs accessor_defs)

section \<open>A zero-byte success\<close>

lemma invoke_keeps_smallest_zero:
  "\<not> is_reset c \<Longrightarrow> m_smallest this = 0 \<Longrightarrow> m_smallest (snd (invoke c this)) = 0"
  by (cases c) (auto simp: op_defs query_defs split: call_splits)

lemma run_keeps_smallest_zero:
  "list_all (\<lambda>c. \<not> is_reset c) cs \<Longrightarrow> m_smallest this = 0 \<Longrightarrow>
     m_smallest (snd (run cs this)) = 0"
proof (induction cs arbitrary: this)
  case Nil
  then show ?case by simp
next
  case (Cons c cs)
  then show ?case
    by (simp add: snd_run_Cons invoke_keeps_smallest_zero del: run.simps)
qed

lemma invoke_alloc_zero_bytes:
  "is_alloc c \<Longrightarrow> requested c = 0 \<Longrightarrow> succeeded (fst (invoke c this)) \<Longrightarrow>
     m_smallest (snd (invoke c this)) = 0"
  by (cases c) (auto simp: op_defs query_defs split: call_splits)

text \<open>
  C10. After a successful \<open>alloc\<close> of 0 bytes (either overload), \<open>getSmallestAlloc()\<close>
  returns 0, and it still returns 0 after any further calls that do not reset the
  counters (\<open>reset()\<close>, \<open>clear()\<close>, \<open>resetCounters()\<close>); this is also what it returns on a
  proxy that has served no allocation at all.
\<close>

theorem zero_byte_success_reads_as_no_success:
  assumes "is_alloc c"
      and "requested c = 0"
      and "succeeded (fst (invoke c this))"
      and "list_all (\<lambda>c. \<not> is_reset c) cs"
  shows "getSmallestAlloc (snd (run cs (snd (invoke c this)))) = 0
         \<and> getSmallestAlloc (snd (run cs (snd (invoke c this)))) =
             getSmallestAlloc (AllocatorStatistic_default b)"
proof -
  have "m_smallest (snd (run cs (snd (invoke c this)))) = 0"
    using assms by (intro run_keeps_smallest_zero invoke_alloc_zero_bytes)
  then show ?thesis
    by (simp add: getSmallestAlloc_def AllocatorStatistic_default_def)
qed

text \<open>
  C10 on a run: a zero-byte request is served, then a 32-byte request, a relocating
  \<open>realloc\<close> to 16 bytes, a \<open>free\<close> and a \<open>purge\<close>; the smallest size still reads 0.
\<close>

theorem zero_byte_success_reads_as_no_success_witness:
  "is_alloc (Alloc 0 8)
   \<and> requested (Alloc 0 8) = 0
   \<and> succeeded
        (fst (invoke (Alloc 0 8)
          (scripted_proxy [Returns 0x1000, Returns 0x2000, Returns 0x3000]
             [(0x2000, 32)] 0)))
   \<and> list_all (\<lambda>c. \<not> is_reset c)
        [Alloc 32 8, Realloc 0x2000 16 8, Free 0x3000, Purge 0]
   \<and> getSmallestAlloc
        (snd (run [Alloc 32 8, Realloc 0x2000 16 8, Free 0x3000, Purge 0]
          (snd (invoke (Alloc 0 8)
            (scripted_proxy [Returns 0x1000, Returns 0x2000, Returns 0x3000]
               [(0x2000, 32)] 0))))) = 0
   \<and> getSmallestAlloc (AllocatorStatistic_default ()) = 0"
  using zero_byte_success_reads_as_no_success
    [of "Alloc 0 8"
        "scripted_proxy [Returns 0x1000, Returns 0x2000, Returns 0x3000] [(0x2000, 32)] 0"
        "[Alloc 32 8, Realloc 0x2000 16 8, Free 0x3000, Purge 0]" "()"]
  by (simp add: scripted_defs op_defs query_defs accessor_defs)

section \<open>Monotone counters\<close>

lemma fetch_add_wraps: "fetch_add 18446744073709551615 1 = 0"
  by (simp add: fetch_add_def)

lemma below_margin_add:
  fixes a n :: "64 word"
  assumes "a < wrap_margin" and "n < wrap_margin"
  shows "a \<le> a + n"
proof -
  from assms have "unat a < 2 ^ 63" and "unat n < 2 ^ 63"
    by (simp_all add: wrap_margin_def word_less_nat_alt)
  then have "unat a + unat n < 2 ^ LENGTH(64)"
    by simp
  then show ?thesis
    by (simp only: no_olen_add_nat)
qed

lemma below_margin_Suc:
  fixes a :: "64 word"
  assumes "a < wrap_margin"
  shows "a \<le> a + 1"
  using assms by (intro below_margin_add) (simp_all add: wrap_margin_def)

lemma below_margin_diff:
  fixes a x y :: "64 word"
  assumes "a < wrap_margin" and "x < wrap_margin" and "y < x"
  shows "a \<le> a + (x - y)"
proof -
  have "x - y \<le> x"
    using assms(3) by (simp add: word_sub_le)
  with assms(2) have "x - y < wrap_margin"
    by simp
  with assms(1) show ?thesis
    by (rule below_margin_add)
qed

lemma invoke_maxima_monotone:
  "\<not> is_reset c \<Longrightarrow>
     m_largest this \<le> m_largest (snd (invoke c this))
     \<and> m_highest this \<le> m_highest (snd (invoke c this))
     \<and> m_alloc_largest_fail this \<le> m_alloc_largest_fail (snd (invoke c this))"
  by (cases c) (auto simp: op_defs query_defs split: call_splits)

text \<open>
  One lemma for each of the fourteen \<open>fetch_add\<close> counters: a call that is not a reset
  does not lower it, as long as the counter and what the call can add to it are below
  half of the 64-bit range.
\<close>

lemma invoke_allocC_monotone:
  assumes "\<not> is_reset c"
      and "m_allocC this < wrap_margin"
  shows "m_allocC this \<le> m_allocC (snd (invoke c this))"
  using assms
  by (cases c)
     (auto simp: op_defs query_defs reported_size_below_def
        below_margin_add below_margin_Suc below_margin_diff split: call_splits)

lemma invoke_alloc_failC_monotone:
  assumes "\<not> is_reset c"
      and "m_alloc_failC this < wrap_margin"
  shows "m_alloc_failC this \<le> m_alloc_failC (snd (invoke c this))"
  using assms
  by (cases c)
     (auto simp: op_defs query_defs reported_size_below_def
        below_margin_add below_margin_Suc below_margin_diff split: call_splits)

lemma invoke_allocB_monotone:
  assumes "\<not> is_reset c"
      and "m_allocB this < wrap_margin"
      and "requested c < wrap_margin"
  shows "m_allocB this \<le> m_allocB (snd (invoke c this))"
  using assms
  by (cases c)
     (auto simp: op_defs query_defs reported_size_below_def
        below_margin_add below_margin_Suc below_margin_diff split: call_splits)

lemma invoke_reallocC_monotone:
  assumes "\<not> is_reset c"
      and "m_reallocC this < wrap_margin"
  shows "m_reallocC this \<le> m_reallocC (snd (invoke c this))"
  using assms
  by (cases c)
     (auto simp: op_defs query_defs reported_size_below_def
        below_margin_add below_margin_Suc below_margin_diff split: call_splits)

lemma invoke_realloc_failC_monotone:
  assumes "\<not> is_reset c"
      and "m_realloc_failC this < wrap_margin"
  shows "m_realloc_failC this \<le> m_realloc_failC (snd (invoke c this))"
  using assms
  by (cases c)
     (auto simp: op_defs query_defs reported_size_below_def
        below_margin_add below_margin_Suc below_margin_diff split: call_splits)

lemma invoke_realloc_growthB_monotone:
  assumes "\<not> is_reset c"
      and "m_realloc_growthB this < wrap_margin"
      and "requested c < wrap_margin"
  shows "m_realloc_growthB this \<le> m_realloc_growthB (snd (invoke c this))"
  using assms
  by (cases c)
     (auto simp: op_defs query_defs reported_size_below_def
        below_margin_add below_margin_Suc below_margin_diff split: call_splits)

lemma invoke_realloc_shrinkB_monotone:
  assumes "\<not> is_reset c"
      and "m_realloc_shrinkB this < wrap_margin"
      and "reported_size_below wrap_margin (pointer_of c) this"
  shows "m_realloc_shrinkB this \<le> m_realloc_shrinkB (snd (invoke c this))"
  using assms
  by (cases c)
     (auto simp: op_defs query_defs reported_size_below_def
        below_margin_add below_margin_Suc below_margin_diff split: call_splits)

lemma invoke_realloc_moveC_monotone:
  assumes "\<not> is_reset c"
      and "m_realloc_moveC this < wrap_margin"
  shows "m_realloc_moveC this \<le> m_realloc_moveC (snd (invoke c this))"
  using assms
  by (cases c)
     (auto simp: op_defs query_defs reported_size_below_def
        below_margin_add below_margin_Suc below_margin_diff split: call_splits)

lemma invoke_realloc_moveB_monotone:
  assumes "\<not> is_reset c"
      and "m_realloc_moveB this < wrap_margin"
      and "requested c < wrap_margin"
  shows "m_realloc_moveB this \<le> m_realloc_moveB (snd (invoke c this))"
  using assms
  by (cases c)
     (auto simp: op_defs query_defs reported_size_below_def
        below_margin_add below_margin_Suc below_margin_diff split: call_splits)

lemma invoke_offerC_monotone:
  assumes "\<not> is_reset c"
      and "m_offerC this < wrap_margin"
  shows "m_offerC this \<le> m_offerC (snd (invoke c this))"
  using assms
  by (cases c)
     (auto simp: op_defs query_defs reported_size_below_def
        below_margin_add below_margin_Suc below_margin_diff split: call_splits)

lemma invoke_offerB_monotone:
  assumes "\<not> is_reset c"
      and "m_offerB this < wrap_margin"
      and "reported_size_below wrap_margin (pointer_of c) this"
  shows "m_offerB this \<le> m_offerB (snd (invoke c this))"
  using assms
  by (cases c)
     (auto simp: op_defs query_defs reported_size_below_def
        below_margin_add below_margin_Suc below_margin_diff split: call_splits)

lemma invoke_reclaimC_monotone:
  assumes "\<not> is_reset c"
      and "m_reclaimC this < wrap_margin"
  shows "m_reclaimC this \<le> m_reclaimC (snd (invoke c this))"
  using assms
  by (cases c)
     (auto simp: op_defs query_defs reported_size_below_def
        below_margin_add below_margin_Suc below_margin_diff split: call_splits)

lemma invoke_reclaim_failC_monotone:
  assumes "\<not> is_reset c"
      and "m_reclaim_failC this < wrap_margin"
  shows "m_reclaim_failC this \<le> m_reclaim_failC (snd (invoke c this))"
  using assms
  by (cases c)
     (auto simp: op_defs query_defs reported_size_below_def
        below_margin_add below_margin_Suc below_margin_diff split: call_splits)

lemma invoke_reclaimB_monotone:
  assumes "\<not> is_reset c"
      and "m_reclaimB this < wrap_margin"
      and "reported_size_below wrap_margin (pointer_of c) (snd (invoke c this))"
  shows "m_reclaimB this \<le> m_reclaimB (snd (invoke c this))"
  using assms
  by (cases c)
     (auto simp: op_defs query_defs reported_size_below_def
        below_margin_add below_margin_Suc below_margin_diff split: call_splits)

text \<open>
  C8. The claim: between resets, the value read from every counter accessor never
  decreases, whatever the proxy is asked to do.

  \<open>getSmallestAlloc()\<close> is a running minimum: after a successful 32-byte request it reads
  32, and after a successful 16-byte request it reads 16.
\<close>

theorem smallest_alloc_decreases_counterexample:
  "\<not> is_reset (Alloc 16 8)
   \<and> getSmallestAlloc
        (snd (invoke (Alloc 32 8)
          (scripted_proxy [Returns 0x1000, Returns 0x2000] [] 0))) = 32
   \<and> getSmallestAlloc
        (snd (invoke (Alloc 16 8)
          (snd (invoke (Alloc 32 8)
            (scripted_proxy [Returns 0x1000, Returns 0x2000] [] 0))))) = 16
   \<and> \<not> getSmallestAlloc
          (snd (invoke (Alloc 32 8)
            (scripted_proxy [Returns 0x1000, Returns 0x2000] [] 0)))
        \<le> getSmallestAlloc
            (snd (invoke (Alloc 16 8)
              (snd (invoke (Alloc 32 8)
                (scripted_proxy [Returns 0x1000, Returns 0x2000] [] 0)))))"
  by (simp add: scripted_defs alloc_def query_defs accessor_defs)

text \<open>
  C8, as the code has it. For a call other than \<open>reset()\<close>, \<open>clear()\<close> and
  \<open>resetCounters()\<close>, every accessor except \<open>getSmallestAlloc()\<close> reads after the call at
  least what it read before: the three running maxima always, the fourteen \<open>fetch_add\<close>
  counters as long as nothing wraps around, which is the case when the counters, the
  requested size and the block size reported by the backend (before and after the call)
  are all below \<open>2 ^ 63\<close>. (A \<open>fetch_add\<close> that passes \<open>2 ^ 64\<close> starts again from 0:
  \<open>fetch_add_wraps\<close>.)
\<close>

theorem counters_monotone_between_resets:
  assumes "\<not> is_reset c"
      and "list_all (\<lambda>get. get this < wrap_margin) cumulative_accessors"
      and "requested c < wrap_margin"
      and "reported_size_below wrap_margin (pointer_of c) this"
      and "reported_size_below wrap_margin (pointer_of c) (snd (invoke c this))"
  shows "list_all (\<lambda>get. get this \<le> get (snd (invoke c this)))
           (maximum_accessors @ cumulative_accessors)"
  using assms invoke_maxima_monotone [of c this]
  by (simp add: listing_defs accessor_defs
      invoke_allocC_monotone invoke_alloc_failC_monotone invoke_allocB_monotone invoke_reallocC_monotone
      invoke_realloc_failC_monotone invoke_realloc_growthB_monotone invoke_realloc_shrinkB_monotone invoke_realloc_moveC_monotone
      invoke_realloc_moveB_monotone invoke_offerC_monotone invoke_offerB_monotone
      invoke_reclaimC_monotone invoke_reclaim_failC_monotone invoke_reclaimB_monotone)

text \<open>
  C8 on a run: after one served 32-byte request, the 32-byte block at \<open>0x1000\<close> is resized
  to 48 bytes and moves to \<open>0x2000\<close>; no reading but the smallest size went down, and the
  call, realloc, growth and relocation counters went up.
\<close>

theorem counters_monotone_between_resets_witness:
  "\<not> is_reset (Realloc 0x1000 48 8)
   \<and> list_all
        (\<lambda>get. get (snd (invoke (Alloc 32 8)
                  (scripted_proxy [Returns 0x1000, Returns 0x2000] [(0x1000, 32)] 32)))
                < wrap_margin)
        cumulative_accessors
   \<and> requested (Realloc 0x1000 48 8) < wrap_margin
   \<and> reported_size_below wrap_margin (pointer_of (Realloc 0x1000 48 8))
        (snd (invoke (Alloc 32 8)
          (scripted_proxy [Returns 0x1000, Returns 0x2000] [(0x1000, 32)] 32)))
   \<and> reported_size_below wrap_margin (pointer_of (Realloc 0x1000 48 8))
        (snd (invoke (Realloc 0x1000 48 8)
          (snd (invoke (Alloc 32 8)
            (scripted_proxy [Returns 0x1000, Returns 0x2000] [(0x1000, 32)] 32)))))
   \<and> list_all
        (\<lambda>get. get (snd (invoke (Alloc 32 8)
                  (scripted_proxy [Returns 0x1000, Returns 0x2000] [(0x1000, 32)] 32)))
                \<le> get (snd (invoke (Realloc 0x1000 48 8)
                    (snd (invoke (Alloc 32 8)
                      (scripted_proxy [Returns 0x1000, Returns 0x2000]
                         [(0x1000, 32)] 32))))))
        (maximum_accessors @ cumulative_accessors)
   \<and> getTotalReallocs
        (snd (invoke (Realloc 0x1000 48 8)
          (snd (invoke (Alloc 32 8)
            (scripted_proxy [Returns 0x1000, Returns 0x2000] [(0x1000, 32)] 32))))) = 1
   \<and> getTotalReallocGrowth
        (snd (invoke (Realloc 0x1000 48 8)
          (snd (invoke (Alloc 32 8)
            (scripted_proxy [Returns 0x1000, Returns 0x2000] [(0x1000, 32)] 32))))) = 16"
  using counters_monotone_between_resets
    [of "Realloc 0x1000 48 8"
        "snd (invoke (Alloc 32 8)
           (scripted_proxy [Returns 0x1000, Returns 0x2000] [(0x1000, 32)] 32))"]
  by (simp add: scripted_defs op_defs query_defs accessor_defs listing_defs
      reported_size_below_def wrap_margin_def)

section \<open>What sets a counter back\<close>





end
